theory Spec2Isabelle
  imports Main "HOL-Library.Word"
begin

unbundle bit_operations_syntax

section \<open>The bit and byte packing macros of \<open>libos/bits.h\<close>\<close>

text \<open>
  The header \<open>libos/bits.h\<close> defines every operation as a macro. The development below
  follows the later of the two revisions of the header, the one whose multi-byte macros
  work byte by byte in big-endian order and which adds the reversal macros.

  The operand types are the fixed-width unsigned types of \<open>stdint.h\<close>. A C \<open>int\<close> is
  taken to be 32 bits wide in two's complement, so the integer promotions turn a
  \<open>uint8_t\<close> or \<open>uint16_t\<close> operand into a non-negative 32-bit value by zero extension
  (\<open>ucast\<close>), and an assignment to a narrower unsigned object keeps the low bits
  (\<open>ucast\<close> again).
\<close>

type_synonym uint8_t = "8 word"
type_synonym uint16_t = "16 word"
type_synonym uint32_t = "32 word"
type_synonym c_int = "32 word"

subsection \<open>Macro arguments\<close>

text \<open>
  A macro parameter stands for the text of its argument. Where the macro body writes the
  parameter in parentheses, the argument is evaluated as a whole. Where the body writes
  the parameter bare next to an operator, the operator takes the operand that the
  precedence rules of C give it. Two places in the header do the latter:
  \<^verbatim>\<open>SET_MASKED_VALUE\<close> writes \<^verbatim>\<open>(~set_mask)\<close>, and \<^verbatim>\<open>HAS_FLAG\<close>, \<^verbatim>\<open>SET_FLAG\<close> and
  \<^verbatim>\<open>CLEAR_FLAG\<close> write \<^verbatim>\<open>1 << flag_pos\<close>. Every other parameter of the macros modelled
  here is parenthesised wherever it is used, and is given by its value.

  The arguments modelled for the two bare parameters have no side effects and one of two
  shapes: a primary expression (a literal, an identifier or a parenthesised expression),
  given by its value; or two primary expressions joined by one of the bitwise operators
  \<^verbatim>\<open>&\<close>, \<^verbatim>\<open>^\<close> and \<^verbatim>\<open>|\<close>, each of which binds less tightly than \<^verbatim>\<open>~\<close> and than \<^verbatim>\<open><<\<close>.
\<close>

datatype bitop = BitAnd | BitXor | BitOr

datatype 'w arg = Primary 'w | Binary 'w bitop 'w

fun bitop_apply :: "bitop \<Rightarrow> 'a::len word \<Rightarrow> 'a word \<Rightarrow> 'a word" where
  "bitop_apply BitAnd x y = x AND y"
| "bitop_apply BitXor x y = x XOR y"
| "bitop_apply BitOr x y = x OR y"

text \<open>The argument on its own, which is also what a parenthesised parameter evaluates to.\<close>

fun arg_value :: "'a::len word arg \<Rightarrow> 'a word" where
  "arg_value (Primary p) = p"
| "arg_value (Binary p bop q) = bitop_apply bop p q"

text \<open>The text \<^verbatim>\<open>~\<close> followed by the argument: the complement takes the first primary.\<close>

fun NOT_bare :: "'a::len word arg \<Rightarrow> 'a word" where
  "NOT_bare (Primary p) = NOT p"
| "NOT_bare (Binary p bop q) = bitop_apply bop (NOT p) q"

subsection \<open>Masks\<close>

text \<open>
  The mask macros are type generic; both operands have one unsigned type \<open>'a word\<close>.
  \<^verbatim>\<open>AND\<close>, \<^verbatim>\<open>OR\<close>, \<^verbatim>\<open>XOR\<close> and \<^verbatim>\<open>NOT\<close> commute with zero extension and with
  truncation, so the promoted computation of C and the computation at the operands' own
  width agree (lemmas \<open>HAS_MASK_promoted\<close>, \<open>ONLY_MASK_promoted\<close> and
  \<open>SET_MASKED_VALUE_promoted\<close> below).

  \<^verbatim>\<open>SET_MASKED_VALUE(value, set_mask, set_value)\<close> is
  \<^verbatim>\<open>((value) = (((value) & (~set_mask)) | ((set_value) & (set_mask))))\<close>: the mask is bare
  under \<^verbatim>\<open>~\<close> and parenthesised in its second use.
\<close>

definition GET_MASK :: "'a::len word \<Rightarrow> 'a word \<Rightarrow> 'a word" where
  "GET_MASK val msk = val AND msk"

definition HAS_MASK :: "'a::len word \<Rightarrow> 'a word \<Rightarrow> bool" where
  "HAS_MASK val msk = (GET_MASK val msk = msk \<and> msk \<noteq> 0)"

definition ONLY_MASK :: "'a::len word \<Rightarrow> 'a word \<Rightarrow> bool" where
  "ONLY_MASK val msk = (GET_MASK val msk = msk \<and> val AND msk = val)"

definition SET_MASK :: "'a::len word \<Rightarrow> 'a word \<Rightarrow> 'a word" where
  "SET_MASK val msk = (val AND NOT msk) OR msk"

definition CLEAR_MASK :: "'a::len word \<Rightarrow> 'a word \<Rightarrow> 'a word" where
  "CLEAR_MASK val msk = val AND NOT msk"

definition SET_MASKED_VALUE :: "'a::len word \<Rightarrow> 'a word arg \<Rightarrow> 'a word \<Rightarrow> 'a word" where
  "SET_MASKED_VALUE val set_mask set_value =
     (val AND NOT_bare set_mask) OR (set_value AND arg_value set_mask)"

subsection \<open>Flags\<close>

text \<open>
  A flag macro expands to the mask macro with the mask \<^verbatim>\<open>1 << flag_pos\<close>, the position
  bare; only the second half of \<^verbatim>\<open>ONLY_FLAG\<close> writes \<^verbatim>\<open>(1 << (flag_pos))\<close>. The literal
  \<^verbatim>\<open>1\<close> is an \<open>int\<close>, so the position is an \<open>int\<close> expression and the shift happens at 32
  bits with a sign, whatever the type of the value. ISO C defines \<^verbatim>\<open>1 << n\<close> on \<open>int\<close>
  only for \<open>0 \<le> n \<le> 30\<close>: a negative count, a count of 32 or more, and the count 31,
  whose result \<open>2 ^ 31\<close> no \<open>int\<close> represents, are undefined behaviour. The model returns
  \<open>None\<close> there.
\<close>

definition shift_one :: "c_int \<Rightarrow> c_int option" where
  "shift_one n = (if 0 \<le> sint n \<and> sint n < 31 then Some (push_bit (unat n) 1) else None)"

text \<open>The text \<^verbatim>\<open>1 << \<close> followed by the argument: the shift takes the first primary.\<close>

fun shift_one_bare :: "c_int arg \<Rightarrow> c_int option" where
  "shift_one_bare (Primary p) = shift_one p"
| "shift_one_bare (Binary p bop q) = map_option (\<lambda>m. bitop_apply bop m q) (shift_one p)"

text \<open>
  The mask is an \<open>int\<close> and the value is unsigned. For a value of at most 32 bits both
  meet at 32 bits (the value by promotion, or for \<open>uint32_t\<close> the mask by conversion to
  unsigned, which keeps its bits), and a mutator stores the result back into the value's
  own type. For a wider value the mask, and in the mutators its complement, is converted
  to the value's type by sign extension (\<open>scast\<close>); there the test \<^verbatim>\<open>(mask) != 0\<close> on the
  \<open>int\<close> agrees with the test on its sign extension.
\<close>

definition HAS_FLAG :: "'a::len word \<Rightarrow> c_int arg \<Rightarrow> bool option" where
  "HAS_FLAG val flag_pos =
     map_option
       (\<lambda>m. if LENGTH('a) \<le> 32 then HAS_MASK (ucast val :: c_int) m
            else HAS_MASK val (scast m))
       (shift_one_bare flag_pos)"

text \<open>\<^verbatim>\<open>&&\<close> evaluates its right operand only if the left one is true.\<close>

definition ONLY_FLAG :: "'a::len word \<Rightarrow> c_int arg \<Rightarrow> bool option" where
  "ONLY_FLAG val flag_pos =
     (case HAS_FLAG val flag_pos of
        None \<Rightarrow> None
      | Some False \<Rightarrow> Some False
      | Some True \<Rightarrow>
          map_option
            (\<lambda>m. if LENGTH('a) \<le> 32 then (ucast val :: c_int) AND m = ucast val
                 else val AND scast m = val)
            (shift_one (arg_value flag_pos)))"

definition SET_FLAG :: "'a::len word \<Rightarrow> c_int arg \<Rightarrow> 'a word option" where
  "SET_FLAG val flag_pos =
     map_option
       (\<lambda>m. if LENGTH('a) \<le> 32 then ucast (SET_MASK (ucast val :: c_int) m)
            else (val AND scast (NOT m)) OR scast m)
       (shift_one_bare flag_pos)"

definition CLEAR_FLAG :: "'a::len word \<Rightarrow> c_int arg \<Rightarrow> 'a word option" where
  "CLEAR_FLAG val flag_pos =
     map_option
       (\<lambda>m. if LENGTH('a) \<le> 32 then ucast (CLEAR_MASK (ucast val :: c_int) m)
            else val AND scast (NOT m))
       (shift_one_bare flag_pos)"

subsection \<open>Combining bytes\<close>

text \<open>
  \<^verbatim>\<open>COMBINE_BYTES_16(higher, lower)\<close> is
  \<^verbatim>\<open>((uint16_t)(lower)) | (((uint16_t)(higher)) << 8)\<close>.
  Each argument, of whatever unsigned type, is converted to \<open>uint16_t\<close>; both sides of
  \<^verbatim>\<open>|\<close> and the left side of \<^verbatim>\<open><<\<close> are then promoted to \<open>int\<close>, which is the type
  of the whole expression. \<^verbatim>\<open>COMBINE_BYTES_32\<close> converts two such results to
  \<open>uint32_t\<close>, which keeps their bits.
\<close>

definition COMBINE_BYTES_16 :: "'a::len word \<Rightarrow> 'b::len word \<Rightarrow> c_int" where
  "COMBINE_BYTES_16 higher lower =
     ucast (ucast lower :: uint16_t) OR push_bit 8 (ucast (ucast higher :: uint16_t))"

definition COMBINE_BYTES_32 ::
  "'a::len word \<Rightarrow> 'b::len word \<Rightarrow> 'c::len word \<Rightarrow> 'd::len word \<Rightarrow> uint32_t" where
  "COMBINE_BYTES_32 higher higher_middle lower_middle lower =
     COMBINE_BYTES_16 lower_middle lower OR push_bit 16 (COMBINE_BYTES_16 higher higher_middle)"

subsection \<open>Words in byte arrays\<close>

text \<open>
  The memory \<open>data\<close> points to is a list of bytes and \<open>byte_offset\<close> an index into it.
  The macros check no bounds: an access outside the array is undefined behaviour in C.
  The model makes that explicit: an operation whose accesses all fall inside the array
  returns \<open>Some\<close> of its result (for the mutators, the array afterwards), and one that
  would leave the array returns \<open>None\<close>.

  \<^verbatim>\<open>SET_16_IN_ARRAY\<close> first stores its argument in a local \<open>uint16_t\<close>, and
  \<^verbatim>\<open>SET_32_IN_ARRAY\<close> in a local \<open>uint32_t\<close>, which truncates a wider argument.
  In \<^verbatim>\<open>(__val >> 8) & 0xFF\<close> the 16-bit \<open>__val\<close> is promoted to \<open>int\<close>; the store into
  the \<open>uint8_t\<close> element keeps the low 8 bits.
\<close>

type_synonym buffer = "uint8_t list"

definition SET_16_IN_ARRAY :: "buffer \<Rightarrow> 'a::len word \<Rightarrow> nat \<Rightarrow> buffer option" where
  "SET_16_IN_ARRAY data val byte_offset =
     (let val16 = (ucast val :: uint16_t) in
      if byte_offset + 2 \<le> length data then
        Some (data[byte_offset + 0 := ucast (drop_bit 8 (ucast val16 :: c_int) AND 0xFF),
                   byte_offset + 1 := ucast (drop_bit 0 (ucast val16 :: c_int) AND 0xFF)])
      else None)"

definition SET_32_IN_ARRAY :: "buffer \<Rightarrow> 'a::len word \<Rightarrow> nat \<Rightarrow> buffer option" where
  "SET_32_IN_ARRAY data val byte_offset =
     (let val32 = (ucast val :: uint32_t) in
      if byte_offset + 4 \<le> length data then
        Some (data[byte_offset + 0 := ucast (drop_bit 24 val32 AND 0xFF),
                   byte_offset + 1 := ucast (drop_bit 16 val32 AND 0xFF),
                   byte_offset + 2 := ucast (drop_bit 8 val32 AND 0xFF),
                   byte_offset + 3 := ucast (drop_bit 0 val32 AND 0xFF)])
      else None)"



text \<open>
  The reversal macros read and write through \<open>__data = data + byte_offset\<close> one
  statement after the other, with a single temporary.
\<close>

definition REVERSE_BYTES_IN_ARRAY_16BIT :: "buffer \<Rightarrow> nat \<Rightarrow> buffer option" where
  "REVERSE_BYTES_IN_ARRAY_16BIT data byte_offset =
     (if byte_offset + 2 \<le> length data then
        (let temp = data ! byte_offset;
             d1 = data[byte_offset + 0 := data ! (byte_offset + 1)];
             d2 = d1[byte_offset + 1 := temp]
         in Some d2)
      else None)"

definition REVERSE_BYTES_IN_ARRAY_32BIT :: "buffer \<Rightarrow> nat \<Rightarrow> buffer option" where
  "REVERSE_BYTES_IN_ARRAY_32BIT data byte_offset =
     (if byte_offset + 4 \<le> length data then
        (let temp = data ! (byte_offset + 0);
             d1 = data[byte_offset + 0 := data ! (byte_offset + 3)];
             d2 = d1[byte_offset + 3 := temp];
             temp' = d2 ! (byte_offset + 1);
             d3 = d2[byte_offset + 1 := d2 ! (byte_offset + 2)];
             d4 = d3[byte_offset + 2 := temp']
         in Some d4)
      else None)"

section \<open>Auxiliary facts about words\<close>

lemma FF_mask: "(0xFF :: 'a::len word) = mask 8"
  by (simp add: mask_eq_exp_minus_1)

lemma FFFF_mask: "(0xFFFF :: 'a::len word) = mask 16"
  by (simp add: mask_eq_exp_minus_1)

lemma fits_byte_AND_FF:
  assumes "unat x \<le> 255"
  shows "x AND 0xFF = x"
proof -
  from assms have "uint x < 2 ^ 8"
    by transfer simp
  then have "x AND mask 8 = x"
    by (simp only: mask_eq_iff)
  then show ?thesis
    by (simp only: FF_mask)
qed

lemma ucast_u16_low_bits: "(ucast (x AND 0xFFFF) :: uint16_t) = ucast x"
  unfolding FFFF_mask
  by (rule bit_word_eqI) (auto simp add: bit_simps dest: bit_imp_le_length)

text \<open>Zero extension to 32 bits loses nothing for a type of at most 32 bits.\<close>

lemma promote_eq_iff:
  assumes "LENGTH('a::len) \<le> 32"
  shows "(ucast (x :: 'a word) :: c_int) = ucast y \<longleftrightarrow> x = y"
proof
  assume "(ucast x :: c_int) = ucast y"
  then have "(ucast (ucast x :: c_int) :: 'a word) = ucast (ucast y :: c_int)"
    by simp
  with assms show "x = y"
    by (simp add: ucast_up_ucast_id is_up)
qed simp

text \<open>
  The mask macros on promoted operands: what C computes at 32 bits for operands of a
  narrower type is what the definitions compute at the operands' own width.
\<close>

lemma HAS_MASK_promoted:
  assumes "LENGTH('a::len) \<le> 32"
  shows "HAS_MASK (ucast (v :: 'a word) :: c_int) (ucast m) = HAS_MASK v m"
proof -
  have "(ucast v :: c_int) AND ucast m = ucast (v AND m)"
    by (simp add: unsigned_and_eq)
  moreover have "(ucast m :: c_int) = 0 \<longleftrightarrow> m = 0"
    using promote_eq_iff [OF assms, of m 0] by simp
  ultimately show ?thesis
    by (simp add: HAS_MASK_def GET_MASK_def promote_eq_iff [OF assms])
qed

lemma ONLY_MASK_promoted:
  assumes "LENGTH('a::len) \<le> 32"
  shows "ONLY_MASK (ucast (v :: 'a word) :: c_int) (ucast m) = ONLY_MASK v m"
proof -
  have "(ucast v :: c_int) AND ucast m = ucast (v AND m)"
    by (simp add: unsigned_and_eq)
  then show ?thesis
    by (simp add: ONLY_MASK_def GET_MASK_def promote_eq_iff [OF assms])
qed

lemma SET_MASKED_VALUE_promoted:
  assumes "LENGTH('a::len) \<le> 32"
  shows "(ucast (SET_MASKED_VALUE (ucast (v :: 'a word) :: c_int) (Primary (ucast m)) (ucast s))
            :: 'a word) = SET_MASKED_VALUE v (Primary m) s"
    and "(ucast (SET_MASKED_VALUE (ucast v :: c_int) (Binary (ucast p) bop (ucast q)) (ucast s))
            :: 'a word) = SET_MASKED_VALUE v (Binary p bop q) s"
proof -
  show "(ucast (SET_MASKED_VALUE (ucast v :: c_int) (Primary (ucast m)) (ucast s)) :: 'a word) =
      SET_MASKED_VALUE v (Primary m) s"
    unfolding SET_MASKED_VALUE_def
    using assms by (intro bit_word_eqI) (auto simp add: bit_simps)
  show "(ucast (SET_MASKED_VALUE (ucast v :: c_int) (Binary (ucast p) bop (ucast q)) (ucast s))
      :: 'a word) = SET_MASKED_VALUE v (Binary p bop q) s"
    unfolding SET_MASKED_VALUE_def
    using assms by (cases bop; intro bit_word_eqI) (auto simp add: bit_simps)
qed

text \<open>
  With a primary expression for the bare parameter the macros compute what their
  parenthesised form would: \<^verbatim>\<open>SET_MASKED_VALUE\<close> is \<^verbatim>\<open>(value & ~mask) | (new & mask)\<close>,
  and a flag set or cleared at a position that the shift defines and the value has is
  found set or clear by \<^verbatim>\<open>HAS_FLAG\<close>.
\<close>

lemma SET_MASKED_VALUE_Primary:
  "SET_MASKED_VALUE val (Primary msk) set_value = (val AND NOT msk) OR (set_value AND msk)"
  "bit (SET_MASKED_VALUE val (Primary msk) set_value) n =
     (if bit msk n then bit set_value n else bit val n)"
  "SET_MASKED_VALUE (0x0F :: uint8_t) (Primary 0x0F) 0x63 = 0x03"
proof -
  show "bit (SET_MASKED_VALUE val (Primary msk) set_value) n =
      (if bit msk n then bit set_value n else bit val n)"
    unfolding SET_MASKED_VALUE_def
    by (auto simp add: bit_simps dest: bit_imp_le_length)
qed (simp_all add: SET_MASKED_VALUE_def)

lemma shift_one_of_nat:
  assumes "n \<le> 30"
  shows "shift_one (of_nat n) = Some (push_bit n 1)"
proof -
  from assms have "int n < 2 ^ 31" "n < 2 ^ 32"
    by (simp_all add: order.strict_trans1 [of _ 30])
  then have "sint (of_nat n :: c_int) = int n" "unat (of_nat n :: c_int) = n"
    by (simp_all add: signed_of_nat signed_take_bit_int_eq_self unat_of_nat take_bit_nat_eq_self)
  with assms show ?thesis
    by (simp add: shift_one_def)
qed

lemma bit_flag_mask: "n \<le> 30 \<Longrightarrow> bit (push_bit n 1 :: c_int) k \<longleftrightarrow> k = n"
  by (auto simp add: bit_simps)

lemma bit_scast_flag_mask:
  "n \<le> 30 \<Longrightarrow> n < LENGTH('a::len) \<Longrightarrow>
   bit (scast (push_bit n 1 :: c_int) :: 'a word) k \<longleftrightarrow> k = n"
  by (auto simp add: bit_simps min_def)

lemma bit_scast_NOT_flag_mask:
  "n \<le> 30 \<Longrightarrow> \<not> bit (scast (NOT (push_bit n 1 :: c_int)) :: 'a::len word) n"
  by (auto simp add: bit_simps min_def)

lemma HAS_FLAG_Primary_after_SET_FLAG:
  fixes val :: "'a::len word"
  assumes "n < LENGTH('a)" and "n \<le> 30"
  shows "Option.bind (SET_FLAG val (Primary (of_nat n))) (\<lambda>v. HAS_FLAG v (Primary (of_nat n))) =
      Some True"
proof (cases "LENGTH('a) \<le> 32")
  case True
  let ?m = "push_bit n 1 :: c_int"
  have "HAS_MASK (ucast (ucast (SET_MASK (ucast val :: c_int) ?m) :: 'a word) :: c_int) ?m"
    unfolding HAS_MASK_def GET_MASK_def SET_MASK_def
    using assms True by (intro conjI bit_word_eqI) (auto simp add: bit_simps)
  with True assms show ?thesis
    by (simp add: SET_FLAG_def HAS_FLAG_def shift_one_of_nat)
next
  case False
  let ?m = "scast (push_bit n 1 :: c_int) :: 'a word"
  let ?v = "(val AND scast (NOT (push_bit n 1 :: c_int))) OR ?m"
  have "?v AND ?m = ?m"
    by (rule bit_word_eqI) (auto simp add: bit_and_iff bit_or_iff)
  moreover from assms have "bit ?m n"
    by (simp only: bit_scast_flag_mask)
  then have "?m \<noteq> 0"
    by auto
  ultimately have "HAS_MASK ?v ?m"
    by (simp add: HAS_MASK_def GET_MASK_def)
  with False assms show ?thesis
    by (simp add: SET_FLAG_def HAS_FLAG_def shift_one_of_nat)
qed

lemma HAS_FLAG_Primary_after_CLEAR_FLAG:
  fixes val :: "'a::len word"
  assumes "n < LENGTH('a)" and "n \<le> 30"
  shows "Option.bind (CLEAR_FLAG val (Primary (of_nat n))) (\<lambda>v. HAS_FLAG v (Primary (of_nat n))) =
      Some False"
proof (cases "LENGTH('a) \<le> 32")
  case True
  let ?m = "push_bit n 1 :: c_int"
  have "\<not> HAS_MASK (ucast (ucast (CLEAR_MASK (ucast val :: c_int) ?m) :: 'a word) :: c_int) ?m"
    unfolding HAS_MASK_def GET_MASK_def CLEAR_MASK_def
    using assms True by (auto simp add: bit_eq_iff bit_simps)
  with True assms show ?thesis
    by (simp add: CLEAR_FLAG_def HAS_FLAG_def shift_one_of_nat)
next
  case False
  let ?m = "scast (push_bit n 1 :: c_int) :: 'a word"
  let ?v = "val AND scast (NOT (push_bit n 1 :: c_int))"
  from assms have set: "bit ?m n"
    by (simp only: bit_scast_flag_mask)
  from assms have "\<not> bit (?v AND ?m) n"
    by (simp only: bit_and_iff bit_scast_NOT_flag_mask simp_thms)
  with set have "?v AND ?m \<noteq> ?m"
    by auto
  then have "\<not> HAS_MASK ?v ?m"
    by (simp add: HAS_MASK_def GET_MASK_def)
  with False assms show ?thesis
    by (simp add: CLEAR_FLAG_def HAS_FLAG_def shift_one_of_nat)
qed

text \<open>The bytes that the array macros split a word into, and their recombination.\<close>

lemma high_byte_u16:
  "(ucast (drop_bit 8 (ucast (v :: uint16_t) :: c_int) AND 0xFF) :: uint8_t) =
     ucast (drop_bit 8 v AND 0xFF)"
  unfolding FF_mask by (rule bit_word_eqI) (auto simp add: bit_simps)

lemma low_byte_u16:
  "(ucast (drop_bit 0 (ucast (v :: uint16_t) :: c_int) AND 0xFF) :: uint8_t) = ucast (v AND 0xFF)"
  unfolding FF_mask by (rule bit_word_eqI) (auto simp add: bit_simps)

lemma unat_high_byte_u16:
  "unat (ucast (drop_bit 8 (v :: uint16_t) AND 0xFF) :: uint8_t) = unat v div 256"
proof -
  have "unat v < 65536"
    using unsigned_less [of v, where 'a = nat] by simp
  then have "unat v div 256 < 256" by simp
  then show ?thesis
    unfolding FF_mask
    by (simp add: unsigned_ucast_eq unsigned_take_bit_eq unsigned_drop_bit_eq
        drop_bit_eq_div take_bit_eq_mod unat_div_distrib unat_mod_distrib
        flip: take_bit_eq_mask)
qed

lemma unat_low_byte_u16:
  "unat (ucast ((v :: uint16_t) AND 0xFF) :: uint8_t) = unat v mod 256"
  unfolding FF_mask
  by (simp add: unsigned_ucast_eq unsigned_take_bit_eq take_bit_eq_mod unat_mod_distrib
      flip: take_bit_eq_mask)



lemma COMBINE_BYTES_16_bytes:
  "COMBINE_BYTES_16 (high :: uint8_t) (low :: uint8_t) = push_bit 8 (ucast high) OR ucast low"
  unfolding COMBINE_BYTES_16_def
  by (rule bit_word_eqI) (auto simp add: bit_simps dest: bit_imp_le_length)

lemma unat_COMBINE_BYTES_16_bytes:
  "unat (COMBINE_BYTES_16 (high :: uint8_t) (low :: uint8_t)) = unat high * 256 + unat low"
proof -
  have "push_bit 8 (ucast high) + ucast low = push_bit 8 (ucast high :: c_int) OR ucast low"
    by (rule disjunctive_add) (auto simp add: bit_simps dest: bit_imp_le_length)
  then have "COMBINE_BYTES_16 high low = push_bit 8 (ucast high) + ucast low"
    by (simp add: COMBINE_BYTES_16_bytes)
  also have "\<dots> = word_of_nat (unat high * 256 + unat low)"
    by (simp add: push_bit_eq_mult)
  finally have "unat (COMBINE_BYTES_16 high low) = (unat high * 256 + unat low) mod 2 ^ 32"
    by (simp add: unat_of_nat flip: of_nat_add)
  moreover have "unat high < 256" "unat low < 256"
    using unsigned_less [of high, where 'a = nat] unsigned_less [of low, where 'a = nat]
    by simp_all
  ultimately show ?thesis by simp
qed

lemma COMBINE_BYTES_16_low_bits:
  "COMBINE_BYTES_16 h l = COMBINE_BYTES_16 (h AND 0xFFFF) (l AND 0xFFFF)"
  by (simp add: COMBINE_BYTES_16_def ucast_u16_low_bits)

text \<open>The array macros inside the array.\<close>

lemma SET_16_IN_ARRAY_Some:
  "byte_offset + 2 \<le> length data \<Longrightarrow>
   SET_16_IN_ARRAY data (v :: uint16_t) byte_offset =
     Some (data[byte_offset := ucast (drop_bit 8 (ucast v :: c_int) AND 0xFF),
                Suc byte_offset := ucast (drop_bit 0 (ucast v :: c_int) AND 0xFF)])"
  by (simp add: SET_16_IN_ARRAY_def)


section \<open>Multi-byte combine\<close>

text \<open>
  Claim C1. For all byte inputs \<open>high\<close> and \<open>low\<close>, \<^verbatim>\<open>COMBINE_BYTES_16(high, low)\<close>, with
  the most significant argument first, is \<^verbatim>\<open>(high << 8) | low\<close>: its value is
  \<open>256 * high + low\<close>, which fits a \<open>uint16_t\<close>, so the conversion of the \<open>int\<close> result to
  \<open>uint16_t\<close> yields the same number. In particular
  \<^verbatim>\<open>COMBINE_BYTES_16(0xAA, 0x55)\<close> is \<^verbatim>\<open>0xAA55\<close>.
\<close>

theorem COMBINE_BYTES_16_big_endian:
  fixes high low :: uint8_t
  shows "COMBINE_BYTES_16 high low = push_bit 8 (ucast high) OR ucast low
       \<and> (ucast (COMBINE_BYTES_16 high low) :: uint16_t) = push_bit 8 (ucast high) OR ucast low
       \<and> unat (COMBINE_BYTES_16 high low) = unat high * 256 + unat low
       \<and> unat (ucast (COMBINE_BYTES_16 high low) :: uint16_t) = unat high * 256 + unat low
       \<and> (ucast (COMBINE_BYTES_16 (0xAA :: uint8_t) (0x55 :: uint8_t)) :: uint16_t) = 0xAA55"
proof -
  have a: "COMBINE_BYTES_16 high low = push_bit 8 (ucast high) OR ucast low"
    by (rule COMBINE_BYTES_16_bytes)
  have b: "(ucast (COMBINE_BYTES_16 high low) :: uint16_t) = push_bit 8 (ucast high) OR ucast low"
    unfolding COMBINE_BYTES_16_bytes
    by (rule bit_word_eqI) (auto simp add: bit_simps dest: bit_imp_le_length)
  have c: "unat (COMBINE_BYTES_16 high low) = unat high * 256 + unat low"
    by (rule unat_COMBINE_BYTES_16_bytes)
  have "unat high * 256 + unat low < 2 ^ 16"
    using unsigned_less [of high, where 'a = nat] unsigned_less [of low, where 'a = nat]
    by simp
  then have d: "unat (ucast (COMBINE_BYTES_16 high low) :: uint16_t) = unat high * 256 + unat low"
    by (simp add: unsigned_ucast_eq take_bit_eq_mod unat_COMBINE_BYTES_16_bytes)
  have e: "(ucast (COMBINE_BYTES_16 (0xAA :: uint8_t) (0x55 :: uint8_t)) :: uint16_t) = 0xAA55"
    by (simp add: COMBINE_BYTES_16_def)
  from a b c d e show ?thesis
    by blast
qed

text \<open>
  Claim C5, as the specification states it: both combine macros truncate each argument to
  its low 8 bits, so that a call equals the same call with every argument replaced by
  \<^verbatim>\<open>value & 0xFF\<close>. The macros convert to \<open>uint16_t\<close>, not to \<open>uint8_t\<close>: bits 8 to 15 of
  an argument reach the result.
\<close>

theorem COMBINE_BYTES_truncate_8_counterexample:
  "COMBINE_BYTES_16 (0 :: uint16_t) (0x1234 :: uint16_t) \<noteq>
     COMBINE_BYTES_16 ((0 :: uint16_t) AND 0xFF) ((0x1234 :: uint16_t) AND 0xFF)
   \<and> COMBINE_BYTES_32 (0 :: uint16_t) (0 :: uint16_t) (0 :: uint16_t) (0x1234 :: uint16_t) \<noteq>
     COMBINE_BYTES_32 ((0 :: uint16_t) AND 0xFF) ((0 :: uint16_t) AND 0xFF)
       ((0 :: uint16_t) AND 0xFF) ((0x1234 :: uint16_t) AND 0xFF)"
  by (simp add: COMBINE_BYTES_32_def COMBINE_BYTES_16_def)

text \<open>
  Claim C5, amended. Both combine macros truncate each argument to its low 16 bits (the
  conversion to \<open>uint16_t\<close>): a call equals the same call with every argument replaced by
  \<^verbatim>\<open>value & 0xFFFF\<close>. For arguments that fit a byte (at most 255), a call equals the same
  call with every argument replaced by \<^verbatim>\<open>value & 0xFF\<close>.
\<close>

theorem COMBINE_BYTES_truncate_16:
  "COMBINE_BYTES_16 h l = COMBINE_BYTES_16 (h AND 0xFFFF) (l AND 0xFFFF)
   \<and> COMBINE_BYTES_32 h hm lm l =
       COMBINE_BYTES_32 (h AND 0xFFFF) (hm AND 0xFFFF) (lm AND 0xFFFF) (l AND 0xFFFF)
   \<and> (unat h \<le> 255 \<and> unat l \<le> 255 \<longrightarrow>
       COMBINE_BYTES_16 h l = COMBINE_BYTES_16 (h AND 0xFF) (l AND 0xFF))
   \<and> (unat h \<le> 255 \<and> unat hm \<le> 255 \<and> unat lm \<le> 255 \<and> unat l \<le> 255 \<longrightarrow>
       COMBINE_BYTES_32 h hm lm l =
       COMBINE_BYTES_32 (h AND 0xFF) (hm AND 0xFF) (lm AND 0xFF) (l AND 0xFF))"
proof -
  have "COMBINE_BYTES_32 h hm lm l =
      COMBINE_BYTES_32 (h AND 0xFFFF) (hm AND 0xFFFF) (lm AND 0xFFFF) (l AND 0xFFFF)"
    unfolding COMBINE_BYTES_32_def
    using COMBINE_BYTES_16_low_bits [of lm l] COMBINE_BYTES_16_low_bits [of h hm]
    by simp
  then show ?thesis
    using COMBINE_BYTES_16_low_bits [of h l]
    by (simp add: fits_byte_AND_FF)
qed

theorem COMBINE_BYTES_truncate_16_witness:
  "unat (0xBB :: uint32_t) \<le> 255 \<and> unat (0xDD :: uint32_t) \<le> 255
   \<and> unat (0xCC :: uint32_t) \<le> 255 \<and> unat (0xAA :: uint32_t) \<le> 255
   \<and> COMBINE_BYTES_16 (0xBB :: uint32_t) (0xDD :: uint32_t) =
       COMBINE_BYTES_16 ((0xBB :: uint32_t) AND 0xFF) ((0xDD :: uint32_t) AND 0xFF)
   \<and> COMBINE_BYTES_32 (0xBB :: uint32_t) (0xDD :: uint32_t) (0xCC :: uint32_t) (0xAA :: uint32_t) =
       COMBINE_BYTES_32 ((0xBB :: uint32_t) AND 0xFF) ((0xDD :: uint32_t) AND 0xFF)
         ((0xCC :: uint32_t) AND 0xFF) ((0xAA :: uint32_t) AND 0xFF)"
  using COMBINE_BYTES_truncate_16
    [of "0xBB :: uint32_t" "0xAA :: uint32_t" "0xDD :: uint32_t" "0xCC :: uint32_t"]
  by simp

section \<open>Masks and flags\<close>

text \<open>
  Claim C4. For every value, \<^verbatim>\<open>HAS_MASK(value, 0)\<close> is false; and for every value and every
  mask other than 0, \<^verbatim>\<open>HAS_MASK(value, mask)\<close> is true if and only if
  \<^verbatim>\<open>(value & mask) == mask\<close>, that is, if and only if every bit of the mask is set in the
  value.
\<close>

theorem HAS_MASK_zero_and_nonzero:
  "\<not> HAS_MASK val 0
   \<and> (msk \<noteq> 0 \<longrightarrow> HAS_MASK val msk = (val AND msk = msk))
   \<and> (msk \<noteq> 0 \<longrightarrow> HAS_MASK val msk = (\<forall>n. bit msk n \<longrightarrow> bit val n))"
proof -
  have "(val AND msk = msk) = (\<forall>n. bit msk n \<longrightarrow> bit val n)"
  proof
    assume covered: "val AND msk = msk"
    show "\<forall>n. bit msk n \<longrightarrow> bit val n"
    proof (intro allI impI)
      fix n
      assume "bit msk n"
      with covered have "bit (val AND msk) n"
        by simp
      then show "bit val n"
        by (simp add: bit_and_iff)
    qed
  next
    assume "\<forall>n. bit msk n \<longrightarrow> bit val n"
    then show "val AND msk = msk"
      by (intro bit_word_eqI) (auto simp add: bit_and_iff)
  qed
  then show ?thesis
    by (simp add: HAS_MASK_def GET_MASK_def)
qed

theorem HAS_MASK_zero_and_nonzero_witness:
  "(0x18 :: uint8_t) \<noteq> 0
   \<and> \<not> HAS_MASK (0xAA :: uint8_t) 0
   \<and> HAS_MASK (0xBA :: uint8_t) 0x18 = ((0xBA :: uint8_t) AND 0x18 = 0x18)
   \<and> HAS_MASK (0xBA :: uint8_t) 0x18
   \<and> \<not> HAS_MASK (0xAA :: uint8_t) 0x18"
  using HAS_MASK_zero_and_nonzero [of "0xBA :: uint8_t" "0x18 :: uint8_t"]
    HAS_MASK_zero_and_nonzero [of "0xAA :: uint8_t" "0x18 :: uint8_t"]
  by simp

text \<open>
  Claim C7. For all value, mask and new value of one width, \<^verbatim>\<open>SET_MASKED_VALUE\<close> updates
  the value to \<^verbatim>\<open>(value & ~mask) | (new_value & mask)\<close>. The macro does not, for a mask
  that is not a primary expression: it writes \<^verbatim>\<open>(~set_mask)\<close> with the parameter bare,
  although it parenthesises the same parameter in \<^verbatim>\<open>(set_mask)\<close>. With \<open>uint32_t\<close> value
  \<^verbatim>\<open>0xFFFFFFFF\<close>, mask \<^verbatim>\<open>1 | 2\<close> (the mask 3) and new value 0, the macro computes
  \<^verbatim>\<open>value & (~1 | 2)\<close> and leaves \<^verbatim>\<open>0xFFFFFFFE\<close>, where
  \<^verbatim>\<open>(value & ~mask) | (new_value & mask)\<close> is \<^verbatim>\<open>0xFFFFFFFC\<close>: bit 1, under the mask, keeps
  the value's bit.
\<close>

theorem SET_MASKED_VALUE_bare_mask_failing_input:
  "arg_value (Binary 1 BitOr 2 :: c_int arg) = 3
   \<and> SET_MASKED_VALUE (0xFFFFFFFF :: uint32_t) (Binary 1 BitOr 2) 0 = 0xFFFFFFFE
   \<and> ((0xFFFFFFFF :: uint32_t) AND NOT (arg_value (Binary 1 BitOr 2)))
        OR (0 AND arg_value (Binary 1 BitOr 2)) = 0xFFFFFFFC
   \<and> bit (arg_value (Binary 1 BitOr 2 :: c_int arg)) 1
   \<and> bit (SET_MASKED_VALUE (0xFFFFFFFF :: uint32_t) (Binary 1 BitOr 2) 0) 1
   \<and> \<not> bit (0 :: uint32_t) 1"
  by (simp add: SET_MASKED_VALUE_def)

text \<open>
  Claim C8. For all value and mask of one width, \<^verbatim>\<open>ONLY_MASK(value, mask)\<close> is true if and
  only if the set bits of the value are exactly the set bits of the mask, that is, the
  value equals the mask. So \<^verbatim>\<open>ONLY_MASK(0, 0)\<close> and \<^verbatim>\<open>ONLY_MASK(0b1100, 0b1100)\<close> are
  true, the superset \<^verbatim>\<open>ONLY_MASK(0b1110, 0b1100)\<close> is false, and the subset
  \<^verbatim>\<open>ONLY_MASK(0b0100, 0b1100)\<close> is false.
\<close>

theorem ONLY_MASK_iff_equal:
  "ONLY_MASK val msk = (val = msk)
   \<and> ONLY_MASK val msk = (\<forall>n. bit val n = bit msk n)
   \<and> ONLY_MASK (0 :: uint8_t) 0
   \<and> ONLY_MASK (0xC :: uint8_t) 0xC
   \<and> \<not> ONLY_MASK (0xE :: uint8_t) 0xC
   \<and> \<not> ONLY_MASK (0x4 :: uint8_t) 0xC"
proof -
  have eq: "ONLY_MASK v m = (v = m)" for v m :: "'b::len word"
    unfolding ONLY_MASK_def GET_MASK_def by auto
  have "ONLY_MASK val msk = (\<forall>n. bit val n = bit msk n)"
    unfolding eq
  proof
    assume "val = msk"
    then show "\<forall>n. bit val n = bit msk n"
      by simp
  next
    assume "\<forall>n. bit val n = bit msk n"
    then show "val = msk"
      by (intro bit_word_eqI) simp
  qed
  then show ?thesis
    by (simp add: eq)
qed

text \<open>
  Claim C9. For every value and every flag position below the width of the value,
  \<^verbatim>\<open>HAS_FLAG(value, pos)\<close> is true immediately after \<^verbatim>\<open>SET_FLAG(value, pos)\<close> and false
  immediately after \<^verbatim>\<open>CLEAR_FLAG(value, pos)\<close>. The macros do not achieve this for a
  position that is not a primary expression: they write \<^verbatim>\<open>1 << flag_pos\<close> with the
  parameter bare, where \<^verbatim>\<open>ONLY_FLAG\<close> writes \<^verbatim>\<open>(1 << (flag_pos))\<close>. With a \<open>uint8_t\<close>
  value 0 and the position \<^verbatim>\<open>3 & 7\<close> (the position 3), the mask is \<^verbatim>\<open>(1 << 3) & 7\<close>, which
  is 0: \<^verbatim>\<open>SET_FLAG\<close> leaves the value 0 and \<^verbatim>\<open>HAS_FLAG\<close> is false. Besides, for a
  \<open>uint32_t\<close> value and the position 31 the shift \<^verbatim>\<open>1 << 31\<close> on \<open>int\<close> has no defined
  result.
\<close>

theorem SET_FLAG_bare_flag_pos_failing_input:
  "arg_value (Binary 3 BitAnd 7 :: c_int arg) = 3
   \<and> shift_one_bare (Binary 3 BitAnd 7) = Some 0
   \<and> SET_FLAG (0 :: uint8_t) (Binary 3 BitAnd 7) = Some 0
   \<and> HAS_FLAG (0 :: uint8_t) (Binary 3 BitAnd 7) = Some False
   \<and> Option.bind (SET_FLAG (0 :: uint8_t) (Binary 3 BitAnd 7))
        (\<lambda>v. HAS_FLAG v (Binary 3 BitAnd 7)) = Some False
   \<and> SET_FLAG (0 :: uint32_t) (Primary 31) = None
   \<and> HAS_FLAG (0x80000000 :: uint32_t) (Primary 31) = None"
  by (simp add: SET_FLAG_def HAS_FLAG_def HAS_MASK_def GET_MASK_def SET_MASK_def shift_one_def)

section \<open>Array codec\<close>



text \<open>
  Claim C3. For every 16-bit value \<open>v\<close>, buffer and offset with \<open>offset + 2 \<le> length\<close>,
  \<^verbatim>\<open>SET_16_IN_ARRAY\<close> stores the most significant byte at the lowest offset: the byte at
  the offset becomes \<^verbatim>\<open>(v >> 8) & 0xFF\<close> (the number \<open>v div 256\<close>) and the byte at the offset
  plus one becomes \<^verbatim>\<open>v & 0xFF\<close> (the number \<open>v mod 256\<close>). The macro works byte by byte, so
  no host byte order enters. In particular writing \<^verbatim>\<open>0x1234\<close> at offset 0 of a 2-byte
  buffer yields the bytes \<^verbatim>\<open>[0x12, 0x34]\<close>.
\<close>

theorem SET_16_IN_ARRAY_most_significant_first:
  fixes v :: uint16_t
  shows "(byte_offset + 2 \<le> length data \<longrightarrow>
           (\<exists>data'. SET_16_IN_ARRAY data v byte_offset = Some data'
              \<and> data' ! byte_offset = ucast (drop_bit 8 v AND 0xFF)
              \<and> data' ! (byte_offset + 1) = ucast (v AND 0xFF)
              \<and> unat (data' ! byte_offset) = unat v div 256
              \<and> unat (data' ! (byte_offset + 1)) = unat v mod 256))
       \<and> SET_16_IN_ARRAY [b0, b1] (0x1234 :: uint16_t) 0 = Some [0x12, 0x34]"
proof (intro conjI impI)
  assume inside: "byte_offset + 2 \<le> length data"
  let ?hi = "ucast (drop_bit 8 v AND 0xFF) :: uint8_t"
  let ?lo = "ucast (v AND 0xFF) :: uint8_t"
  let ?data' = "data[byte_offset := ?hi, Suc byte_offset := ?lo]"
  from inside have stored: "SET_16_IN_ARRAY data v byte_offset = Some ?data'"
    by (simp only: SET_16_IN_ARRAY_Some high_byte_u16 low_byte_u16)
  from inside have hi: "?data' ! byte_offset = ?hi"
    by (simp add: nth_list_update)
  from inside have lo: "?data' ! (byte_offset + 1) = ?lo"
    by (simp add: nth_list_update)
  have hi_val: "unat (?data' ! byte_offset) = unat v div 256"
    by (simp only: hi unat_high_byte_u16)
  have lo_val: "unat (?data' ! (byte_offset + 1)) = unat v mod 256"
    by (simp only: lo unat_low_byte_u16)
  from stored hi lo hi_val lo_val
  show "\<exists>data'. SET_16_IN_ARRAY data v byte_offset = Some data'
      \<and> data' ! byte_offset = ucast (drop_bit 8 v AND 0xFF)
      \<and> data' ! (byte_offset + 1) = ucast (v AND 0xFF)
      \<and> unat (data' ! byte_offset) = unat v div 256
      \<and> unat (data' ! (byte_offset + 1)) = unat v mod 256"
    by blast
next
  show "SET_16_IN_ARRAY [b0, b1] (0x1234 :: uint16_t) 0 = Some [0x12, 0x34]"
    by (simp add: SET_16_IN_ARRAY_def)
qed

theorem SET_16_IN_ARRAY_most_significant_first_witness:
  "(1 :: nat) + 2 \<le> length [0x11, 0x22, 0x33, 0x44 :: uint8_t]
   \<and> SET_16_IN_ARRAY [0x11, 0x22, 0x33, 0x44] (0xBBAA :: uint16_t) 1 =
       Some [0x11, 0xBB, 0xAA, 0x44]
   \<and> (\<exists>data'. SET_16_IN_ARRAY [0x11, 0x22, 0x33, 0x44] (0xBBAA :: uint16_t) 1 = Some data'
        \<and> unat (data' ! 1) = 0xBB \<and> unat (data' ! 2) = 0xAA)"
  using SET_16_IN_ARRAY_most_significant_first [of 1 "[0x11, 0x22, 0x33, 0x44]" "0xBBAA"]
  by (simp add: SET_16_IN_ARRAY_def)

text \<open>
  Claim C6. For every buffer and offset with \<open>offset + 2 \<le> length\<close>, applying
  \<^verbatim>\<open>REVERSE_BYTES_IN_ARRAY_16BIT\<close> twice at the same offset restores the buffer to its
  original contents; the same holds for \<^verbatim>\<open>REVERSE_BYTES_IN_ARRAY_32BIT\<close> applied twice,
  with \<open>offset + 4 \<le> length\<close>.
\<close>

theorem REVERSE_BYTES_IN_ARRAY_twice:
  "(byte_offset + 2 \<le> length data \<longrightarrow>
      Option.bind (REVERSE_BYTES_IN_ARRAY_16BIT data byte_offset)
        (\<lambda>data'. REVERSE_BYTES_IN_ARRAY_16BIT data' byte_offset) = Some data)
   \<and> (byte_offset + 4 \<le> length data \<longrightarrow>
      Option.bind (REVERSE_BYTES_IN_ARRAY_32BIT data byte_offset)
        (\<lambda>data'. REVERSE_BYTES_IN_ARRAY_32BIT data' byte_offset) = Some data)"
proof (intro conjI impI)
  assume "byte_offset + 2 \<le> length data"
  then show "Option.bind (REVERSE_BYTES_IN_ARRAY_16BIT data byte_offset)
      (\<lambda>data'. REVERSE_BYTES_IN_ARRAY_16BIT data' byte_offset) = Some data"
    by (simp add: REVERSE_BYTES_IN_ARRAY_16BIT_def Let_def list_eq_iff_nth_eq nth_list_update)
next
  assume "byte_offset + 4 \<le> length data"
  then show "Option.bind (REVERSE_BYTES_IN_ARRAY_32BIT data byte_offset)
      (\<lambda>data'. REVERSE_BYTES_IN_ARRAY_32BIT data' byte_offset) = Some data"
    by (simp add: REVERSE_BYTES_IN_ARRAY_32BIT_def Let_def list_eq_iff_nth_eq nth_list_update)
qed

theorem REVERSE_BYTES_IN_ARRAY_twice_witness:
  "(1 :: nat) + 2 \<le> length [1, 2, 3, 4, 5, 6 :: uint8_t]
   \<and> REVERSE_BYTES_IN_ARRAY_16BIT [1, 2, 3, 4, 5, 6] 1 = Some [1, 3, 2, 4, 5, 6]
   \<and> Option.bind (REVERSE_BYTES_IN_ARRAY_16BIT [1, 2, 3, 4, 5, 6] 1)
       (\<lambda>data'. REVERSE_BYTES_IN_ARRAY_16BIT data' 1) = Some [1, 2, 3, 4, 5, 6]
   \<and> (1 :: nat) + 4 \<le> length [1, 2, 3, 4, 5, 6 :: uint8_t]
   \<and> REVERSE_BYTES_IN_ARRAY_32BIT [1, 2, 3, 4, 5, 6] 1 = Some [1, 5, 4, 3, 2, 6]
   \<and> Option.bind (REVERSE_BYTES_IN_ARRAY_32BIT [1, 2, 3, 4, 5, 6] 1)
       (\<lambda>data'. REVERSE_BYTES_IN_ARRAY_32BIT data' 1) = Some [1, 2, 3, 4, 5, 6]"
  using REVERSE_BYTES_IN_ARRAY_twice [of 1 "[1, 2, 3, 4, 5, 6]"]
  by (simp add: REVERSE_BYTES_IN_ARRAY_16BIT_def REVERSE_BYTES_IN_ARRAY_32BIT_def)

text \<open>
  Claim C10. For every buffer, offset inside the buffer and value, \<^verbatim>\<open>SET_16_IN_ARRAY\<close>
  modifies only the 2 bytes at the offset and the offset plus one, \<^verbatim>\<open>SET_32_IN_ARRAY\<close> only
  the 4 bytes from the offset to the offset plus three, and the reversal macros only the
  bytes of their own word: the buffer keeps its length, and the bytes before the offset
  and the bytes after the word are unchanged.
\<close>

theorem IN_ARRAY_writes_only_own_word:
  "(byte_offset + 2 \<le> length data \<longrightarrow>
      (\<exists>data'. SET_16_IN_ARRAY data v byte_offset = Some data'
         \<and> length data' = length data
         \<and> take byte_offset data' = take byte_offset data
         \<and> drop (byte_offset + 2) data' = drop (byte_offset + 2) data))
   \<and> (byte_offset + 4 \<le> length data \<longrightarrow>
      (\<exists>data'. SET_32_IN_ARRAY data w byte_offset = Some data'
         \<and> length data' = length data
         \<and> take byte_offset data' = take byte_offset data
         \<and> drop (byte_offset + 4) data' = drop (byte_offset + 4) data))
   \<and> (byte_offset + 2 \<le> length data \<longrightarrow>
      (\<exists>data'. REVERSE_BYTES_IN_ARRAY_16BIT data byte_offset = Some data'
         \<and> length data' = length data
         \<and> take byte_offset data' = take byte_offset data
         \<and> drop (byte_offset + 2) data' = drop (byte_offset + 2) data))
   \<and> (byte_offset + 4 \<le> length data \<longrightarrow>
      (\<exists>data'. REVERSE_BYTES_IN_ARRAY_32BIT data byte_offset = Some data'
         \<and> length data' = length data
         \<and> take byte_offset data' = take byte_offset data
         \<and> drop (byte_offset + 4) data' = drop (byte_offset + 4) data))"
proof (intro conjI impI)
  assume "byte_offset + 2 \<le> length data"
  then show "\<exists>data'. SET_16_IN_ARRAY data v byte_offset = Some data'
      \<and> length data' = length data
      \<and> take byte_offset data' = take byte_offset data
      \<and> drop (byte_offset + 2) data' = drop (byte_offset + 2) data"
    by (simp add: SET_16_IN_ARRAY_def Let_def)
next
  assume "byte_offset + 4 \<le> length data"
  then show "\<exists>data'. SET_32_IN_ARRAY data w byte_offset = Some data'
      \<and> length data' = length data
      \<and> take byte_offset data' = take byte_offset data
      \<and> drop (byte_offset + 4) data' = drop (byte_offset + 4) data"
    by (simp add: SET_32_IN_ARRAY_def Let_def)
next
  assume "byte_offset + 2 \<le> length data"
  then show "\<exists>data'. REVERSE_BYTES_IN_ARRAY_16BIT data byte_offset = Some data'
      \<and> length data' = length data
      \<and> take byte_offset data' = take byte_offset data
      \<and> drop (byte_offset + 2) data' = drop (byte_offset + 2) data"
    by (simp add: REVERSE_BYTES_IN_ARRAY_16BIT_def Let_def)
next
  assume "byte_offset + 4 \<le> length data"
  then show "\<exists>data'. REVERSE_BYTES_IN_ARRAY_32BIT data byte_offset = Some data'
      \<and> length data' = length data
      \<and> take byte_offset data' = take byte_offset data
      \<and> drop (byte_offset + 4) data' = drop (byte_offset + 4) data"
    by (simp add: REVERSE_BYTES_IN_ARRAY_32BIT_def Let_def)
qed

theorem IN_ARRAY_writes_only_own_word_witness:
  "(2 :: nat) + 2 \<le> length [0x11, 0x22, 0x33, 0x44, 0x55, 0x66, 0x77, 0x88 :: uint8_t]
   \<and> (2 :: nat) + 4 \<le> length [0x11, 0x22, 0x33, 0x44, 0x55, 0x66, 0x77, 0x88 :: uint8_t]
   \<and> (\<exists>data'. SET_16_IN_ARRAY [0x11, 0x22, 0x33, 0x44, 0x55, 0x66, 0x77, 0x88]
                  (0xBBAA :: uint16_t) 2 = Some data'
        \<and> length data' = length [0x11, 0x22, 0x33, 0x44, 0x55, 0x66, 0x77, 0x88 :: uint8_t]
        \<and> take 2 data' = [0x11, 0x22]
        \<and> drop 4 data' = [0x55, 0x66, 0x77, 0x88])
   \<and> (\<exists>data'. SET_32_IN_ARRAY [0x11, 0x22, 0x33, 0x44, 0x55, 0x66, 0x77, 0x88]
                  (0xBBAACCEE :: uint32_t) 2 = Some data'
        \<and> length data' = length [0x11, 0x22, 0x33, 0x44, 0x55, 0x66, 0x77, 0x88 :: uint8_t]
        \<and> take 2 data' = [0x11, 0x22] \<and> drop 6 data' = [0x77, 0x88])
   \<and> (\<exists>data'. REVERSE_BYTES_IN_ARRAY_16BIT [0x11, 0x22, 0x33, 0x44, 0x55, 0x66, 0x77, 0x88] 2
                  = Some data'
        \<and> length data' = length [0x11, 0x22, 0x33, 0x44, 0x55, 0x66, 0x77, 0x88 :: uint8_t]
        \<and> take 2 data' = [0x11, 0x22]
        \<and> drop 4 data' = [0x55, 0x66, 0x77, 0x88])
   \<and> (\<exists>data'. REVERSE_BYTES_IN_ARRAY_32BIT [0x11, 0x22, 0x33, 0x44, 0x55, 0x66, 0x77, 0x88] 2
                  = Some data'
        \<and> length data' = length [0x11, 0x22, 0x33, 0x44, 0x55, 0x66, 0x77, 0x88 :: uint8_t]
        \<and> take 2 data' = [0x11, 0x22] \<and> drop 6 data' = [0x77, 0x88])"
  using IN_ARRAY_writes_only_own_word
    [of 2 "[0x11, 0x22, 0x33, 0x44, 0x55, 0x66, 0x77, 0x88]" "0xBBAA :: uint16_t"
        "0xBBAACCEE :: uint32_t"]
  by simp

end
